theory Spec2Isabelle
  imports Main "HOL-Library.AList" "HOL-Library.Char_ord" "HOL-Library.List_Lexorder"
begin

section \<open>The inventory ledger of cleaned\_inventory\_system.py\<close>

text \<open>
  The module keeps one global dictionary \<open>stock_data\<close> from item names to quantities and
  six functions over it. The embedding passes the dictionary explicitly: every function
  takes the dictionary as it is before the call and returns the outcome of the call (an
  exception or a value) together with the dictionary as it is afterwards, which for a
  call that raises is the dictionary at the moment of the raise. A raised exception is
  the left summand of the outcome.
\<close>

subsection \<open>Python values and exceptions\<close>

text \<open>
  A Python float is \<open>m * 2 ^ e\<close> for integers \<open>m\<close> and \<open>e\<close>, or one of the three
  special values. Only \<open>int()\<close> of a float is needed, which truncates towards zero.
\<close>

datatype pyfloat = Finite int int | PosInf | NegInf | NaN

text \<open>
  The values that reach the module: the arguments of its functions and what
  \<open>json.load\<close> returns. A dictionary is kept as the list of its items in insertion
  order; \<open>json.load\<close> only builds dictionaries whose keys are strings.
\<close>

datatype pyval =
    PNone
  | PBool bool
  | PInt int
  | PFloat pyfloat
  | PStr string
  | PList "pyval list"
  | PDict "(string \<times> pyval) list"

text \<open>
  The exception classes the module raises or lets through (\<open>AttributeError\<close> and
  \<open>RecursionError\<close> among the latter). The specification calls
  \<open>TypeError\<close> InvalidType, \<open>ValueError\<close> InvalidArgument, \<open>KeyError\<close> NotFound and
  \<open>OSError\<close> IOFailure. Here \<open>OSError\<close> stands for the instances of \<open>OSError\<close> that
  are no \<open>FileNotFoundError\<close> (\<open>PermissionError\<close>, \<open>IsADirectoryError\<close> and the like),
  and \<open>ValueError\<close> for those of \<open>ValueError\<close> that are no \<open>JSONDecodeError\<close>; the two
  subclasses are values of their own because \<open>load_data\<close> names them in its handlers.
\<close>

datatype pyerr =
    TypeError | ValueError | KeyError | OverflowError | AttributeError | RecursionError
  | JSONDecodeError | FileNotFoundError | OSError

type_synonym 'a outcome = "pyerr + 'a"

text \<open>\<open>isinstance(x, int)\<close>: \<open>bool\<close> is a subclass of \<open>int\<close>, with \<open>True == 1\<close>.\<close>

fun as_int :: "pyval \<Rightarrow> int option" where
  "as_int (PInt n) = Some n"
| "as_int (PBool b) = Some (if b then 1 else 0)"
| "as_int _ = None"

text \<open>\<open>isinstance(x, str)\<close>.\<close>

fun as_str :: "pyval \<Rightarrow> string option" where
  "as_str (PStr s) = Some s"
| "as_str _ = None"

subsection \<open>The dictionary\<close>

text \<open>
  \<open>stock_data\<close>, a \<open>Dict[str, int]\<close>, as its items in insertion order. Assigning to a
  key that is present replaces the value in place, assigning to a new key appends
  (\<open>AList.update\<close>); \<open>del\<close> drops the item (\<open>AList.delete\<close>); \<open>get\<close> is \<open>map_of\<close>.
  A Python dictionary holds every key once.
\<close>

type_synonym stock = "(string \<times> int) list"

definition dict_get :: "stock \<Rightarrow> string \<Rightarrow> int \<Rightarrow> int" where
  "dict_get st k d = (case map_of st k of None \<Rightarrow> d | Some v \<Rightarrow> v)"

definition wf_dict :: "stock \<Rightarrow> bool" where
  "wf_dict st = distinct (map fst st)"

text \<open>Invariant I1 of the specification: every stored quantity is strictly positive.\<close>

definition positive_stock :: "stock \<Rightarrow> bool" where
  "positive_stock st = list_all (\<lambda>(k, q). 0 < q) st"

subsection \<open>Integers as text\<close>

text \<open>
  \<open>str(n)\<close>, which the f-string of \<open>add_item\<close> and \<open>json.dump\<close> apply to quantities.
  CPython refuses to convert an integer of more than \<open>sys.int_info.default_max_str_digits\<close>
  decimal digits, 4300, and raises \<open>ValueError\<close>.
\<close>

definition int_max_str_digits :: nat where
  "int_max_str_digits = 4300"

definition fits_str :: "int \<Rightarrow> bool" where
  "fits_str n \<longleftrightarrow> \<bar>n\<bar> < 10 ^ int_max_str_digits"

function show_nat :: "nat \<Rightarrow> string" where
  "show_nat n =
     (if n < 10 then [''0123456789'' ! n]
      else show_nat (n div 10) @ [''0123456789'' ! (n mod 10)])"
  by pat_completeness auto
termination
  by (relation "measure id") auto

declare show_nat.simps [simp del]

definition show_int :: "int \<Rightarrow> string" where
  "show_int n = (if n < 0 then CHR ''-'' # show_nat (nat (- n)) else show_nat (nat n))"

definition py_str_int :: "int \<Rightarrow> string outcome" where
  "py_str_int n = (if fits_str n then Inr (show_int n) else Inl ValueError)"

subsection \<open>add\_item, remove\_item, get\_qty, check\_low\_items\<close>

text \<open>
  The calls of \<open>logging\<close> do not read or write \<open>stock_data\<close>, and an exception inside
  one is handled by the logging module itself (it is printed, not raised): they are
  left out. The audit line of \<open>add_item\<close> is kept, since it is built after the dictionary
  is written and can raise: the f-string formats \<open>qty\<close> (a \<open>bool\<close> prints as \<open>True\<close> or
  \<open>False\<close>), and \<open>logs.append\<close> needs a list.
\<close>

text \<open>
  \<open>f"{qty}"\<close> for a value that has passed \<open>isinstance(qty, int)\<close>; no other value
  reaches the f-string.
\<close>

fun qty_text :: "pyval \<Rightarrow> string outcome" where
  "qty_text (PInt n) = py_str_int n"
| "qty_text (PBool b) = Inr (if b then ''True'' else ''False'')"
| "qty_text _ = Inl TypeError"

text \<open>
  \<open>logs.append(entry)\<close>, as the caller sees it: with \<open>logs=None\<close> the entry goes to a
  fresh list that is dropped, a list gets the entry at its end, and any other value of
  the model has no \<open>append\<close>.
\<close>

fun logs_append :: "pyval \<Rightarrow> string \<Rightarrow> pyval outcome" where
  "logs_append PNone entry = Inr PNone"
| "logs_append (PList xs) entry = Inr (PList (xs @ [PStr entry]))"
| "logs_append _ entry = Inl AttributeError"

text \<open>
  \<open>add_item(item, qty, logs)\<close>; \<open>now\<close> is the text of \<open>datetime.now().isoformat()\<close> at
  the call. The result is the outcome, the dictionary after the call and the caller's
  \<open>logs\<close> after the call.
\<close>

definition add_item ::
  "stock \<Rightarrow> pyval \<Rightarrow> pyval \<Rightarrow> pyval \<Rightarrow> string \<Rightarrow> unit outcome \<times> stock \<times> pyval" where
  "add_item st item qty logs now =
     (case as_str item of
        None \<Rightarrow> (Inl TypeError, st, logs)
      | Some name \<Rightarrow>
          (case as_int qty of
             None \<Rightarrow> (Inl TypeError, st, logs)
           | Some q \<Rightarrow>
               if q \<le> 0 then (Inl ValueError, st, logs)
               else let previous = dict_get st name 0;
                        st' = AList.update name (previous + q) st
                    in (case qty_text qty of
                          Inl e \<Rightarrow> (Inl e, st', logs)
                        | Inr shown \<Rightarrow>
                            (case logs_append logs (now @ '': Added '' @ shown @ '' of '' @ name) of
                               Inl e \<Rightarrow> (Inl e, st', logs)
                             | Inr logs' \<Rightarrow> (Inr (), st', logs')))))"

definition remove_item :: "stock \<Rightarrow> pyval \<Rightarrow> pyval \<Rightarrow> unit outcome \<times> stock" where
  "remove_item st item qty =
     (case as_str item of
        None \<Rightarrow> (Inl TypeError, st)
      | Some name \<Rightarrow>
          (case as_int qty of
             None \<Rightarrow> (Inl TypeError, st)
           | Some q \<Rightarrow>
               if q \<le> 0 then (Inl ValueError, st)
               else (case map_of st name of
                       None \<Rightarrow> (Inl KeyError, st)
                     | Some current \<Rightarrow>
                         if q \<ge> current then (Inr (), AList.delete name st)
                         else (Inr (), AList.update name (current - q) st))))"

definition get_qty :: "stock \<Rightarrow> pyval \<Rightarrow> int outcome" where
  "get_qty st item =
     (case as_str item of
        None \<Rightarrow> Inl TypeError
      | Some name \<Rightarrow> Inr (dict_get st name 0))"


subsection \<open>Files\<close>

text \<open>
  What the module can observe of a path. The text of a file is not modelled:
  \<open>json.dump\<close> and \<open>json.load\<close> belong to the Python library, and a file is taken by
  what \<open>json.load\<close> makes of it: it raises \<open>JSONDecodeError\<close> (\<open>Garbage\<close>: an empty or
  cut-off file, text that is no JSON; a file that is not UTF-8 raises
  \<open>UnicodeDecodeError\<close> and a number of more than 4300 digits \<open>ValueError\<close>, which the
  same handler catches), it raises \<open>RecursionError\<close> (\<open>Deep\<close>: JSON nested beyond the
  recursion limit), or it returns a value (\<open>Document\<close>). A file that \<open>json.dump\<close> wrote
  completely is read back by \<open>json.load\<close> as the value dumped.
\<close>

datatype filetext = Garbage | Deep | Document pyval

text \<open>
  What happens when the path is opened for writing: \<open>open\<close> raises \<open>OSError\<close> and the
  file is untouched (\<open>Refused\<close>: permission denied, the path is a directory, its
  directory is missing); \<open>open\<close> succeeds, which empties the file, and then no data can
  be written, so that the write or the flush at the end of the \<open>with\<close> block raises
  \<open>OSError\<close> (\<open>Broken\<close>: disk full); or every write succeeds (\<open>Done\<close>).
\<close>

datatype writing = Refused | Broken | Done

text \<open>
  A path: the file there, if any (\<open>holds\<close>); whether it can be opened and read
  (\<open>readable\<close>; when not, \<open>open\<close> or the read raises an \<open>OSError\<close> other than
  \<open>FileNotFoundError\<close>); and what writing to it does.
\<close>

record pyfile =
  holds :: "filetext option"
  readable :: bool
  writing :: writing

type_synonym disk = "string \<Rightarrow> pyfile"

subsection \<open>load\_data\<close>

fun float_int :: "pyfloat \<Rightarrow> int outcome" where
  "float_int (Finite m e) =
     Inr (if 0 \<le> e then m * 2 ^ nat e
          else if 0 \<le> m then m div 2 ^ nat (- e)
          else - ((- m) div 2 ^ nat (- e)))"
| "float_int PosInf = Inl OverflowError"
| "float_int NegInf = Inl OverflowError"
| "float_int NaN = Inl ValueError"

text \<open>
  The builtin \<open>int(v)\<close>. What \<open>int\<close> makes of a string is Python's own grammar of
  integer literals; it is the parameter \<open>int_str\<close>, which is \<open>None\<close> where \<open>int\<close> raises
  \<open>ValueError\<close>.
\<close>

fun py_int :: "(string \<Rightarrow> int option) \<Rightarrow> pyval \<Rightarrow> int outcome" where
  "py_int int_str PNone = Inl TypeError"
| "py_int int_str (PBool b) = Inr (if b then 1 else 0)"
| "py_int int_str (PInt n) = Inr n"
| "py_int int_str (PFloat f) = float_int f"
| "py_int int_str (PStr s) = (case int_str s of None \<Rightarrow> Inl ValueError | Some n \<Rightarrow> Inr n)"
| "py_int int_str (PList xs) = Inl TypeError"
| "py_int int_str (PDict kvs) = Inl TypeError"

text \<open>
  The comprehension \<open>{str(k): int(v) for k, v in data.items()}\<close>: the items are
  visited in order, the first \<open>int(v)\<close> that raises ends it, and each pair is stored
  into the dictionary under construction. The keys of \<open>data\<close> are strings, so
  \<open>str(k)\<close> is \<open>k\<close>.
\<close>

fun dict_comp :: "(string \<Rightarrow> int option) \<Rightarrow> (string \<times> pyval) list \<Rightarrow> stock \<Rightarrow> stock outcome" where
  "dict_comp int_str [] acc = Inr acc"
| "dict_comp int_str ((k, v) # kvs) acc =
     (case py_int int_str v of
        Inl e \<Rightarrow> Inl e
      | Inr n \<Rightarrow> dict_comp int_str kvs (AList.update k n acc))"

text \<open>
  The body of the \<open>try\<close> block: the exception that leaves it, or the dictionary that the
  comprehension built. A value that is no dictionary raises the \<open>ValueError\<close> of line 98.
\<close>

definition load_body :: "(string \<Rightarrow> int option) \<Rightarrow> pyfile \<Rightarrow> stock outcome" where
  "load_body int_str f =
     (if \<not> readable f then Inl OSError
      else case holds f of
             None \<Rightarrow> Inl FileNotFoundError
           | Some Garbage \<Rightarrow> Inl JSONDecodeError
           | Some Deep \<Rightarrow> Inl RecursionError
           | Some (Document (PDict kvs)) \<Rightarrow> dict_comp int_str kvs []
           | Some (Document _) \<Rightarrow> Inl ValueError)"

text \<open>
  \<open>load_data\<close>: the handlers catch \<open>FileNotFoundError\<close> and
  \<open>(json.JSONDecodeError, ValueError, TypeError)\<close> and empty the dictionary; any other
  exception leaves the function, with the dictionary as it was, since nothing in the
  body raises after the assignment to \<open>stock_data\<close>.
\<close>

definition load_data :: "(string \<Rightarrow> int option) \<Rightarrow> stock \<Rightarrow> disk \<Rightarrow> string \<Rightarrow> unit outcome \<times> stock" where
  "load_data int_str st fs path =
     (case load_body int_str (fs path) of
        Inr st' \<Rightarrow> (Inr (), st')
      | Inl FileNotFoundError \<Rightarrow> (Inr (), [])
      | Inl JSONDecodeError \<Rightarrow> (Inr (), [])
      | Inl ValueError \<Rightarrow> (Inr (), [])
      | Inl TypeError \<Rightarrow> (Inr (), [])
      | Inl e \<Rightarrow> (Inl e, st))"

text \<open>
  The exception of the first value, in the order of the file, that \<open>int\<close> rejects.
\<close>

fun first_rejection :: "(string \<Rightarrow> int option) \<Rightarrow> (string \<times> pyval) list \<Rightarrow> pyerr option" where
  "first_rejection int_str [] = None"
| "first_rejection int_str ((k, v) # kvs) =
     (case py_int int_str v of
        Inl e \<Rightarrow> Some e
      | Inr n \<Rightarrow> first_rejection int_str kvs)"

subsection \<open>save\_data\<close>

text \<open>
  \<open>json.dump(stock_data, f, indent=2, sort_keys=True)\<close> writes the items sorted by
  key, piece by piece, and raises \<open>ValueError\<close> at a quantity that \<open>str\<close> refuses, which
  leaves a cut-off file behind. An \<open>OSError\<close> is logged and raised again; no other
  exception is caught. Where no data can be written the \<open>OSError\<close> of the flush is the
  exception that leaves the \<open>with\<close> block, whatever the dictionary.
\<close>

definition dumped :: "stock \<Rightarrow> pyval" where
  "dumped st = PDict (map (\<lambda>(k, q). (k, PInt q)) (sort_key fst st))"

definition save_data :: "stock \<Rightarrow> disk \<Rightarrow> string \<Rightarrow> unit outcome \<times> disk" where
  "save_data st fs path =
     (case writing (fs path) of
        Refused \<Rightarrow> (Inl OSError, fs)
      | Broken \<Rightarrow> (Inl OSError, fs(path := (fs path)\<lparr>holds := Some Garbage\<rparr>))
      | Done \<Rightarrow>
          if list_all (\<lambda>(k, q). fits_str q) st
          then (Inr (), fs(path := (fs path)\<lparr>holds := Some (Document (dumped st))\<rparr>))
          else (Inl ValueError, fs(path := (fs path)\<lparr>holds := Some Garbage\<rparr>)))"

subsection \<open>Sequences of calls\<close>

text \<open>
  A caller that goes on after an exception, as \<open>main\<close> does: each call is applied to the
  dictionary and the disk that the call before left, whether it raised or not. An
  \<open>Add\<close> carries the \<open>logs\<close> argument and the time of the call.
\<close>

datatype mutation = Add pyval pyval pyval string | Remove pyval pyval

fun apply_mutation :: "mutation \<Rightarrow> stock \<Rightarrow> stock" where
  "apply_mutation (Add item qty logs now) st = fst (snd (add_item st item qty logs now))"
| "apply_mutation (Remove item qty) st = snd (remove_item st item qty)"

fun run_mutations :: "mutation list \<Rightarrow> stock \<Rightarrow> stock" where
  "run_mutations [] st = st"
| "run_mutations (m # ms) st = run_mutations ms (apply_mutation m st)"

datatype call = Mutate mutation | Load string | Save string

fun step :: "(string \<Rightarrow> int option) \<Rightarrow> call \<Rightarrow> stock \<times> disk \<Rightarrow> stock \<times> disk" where
  "step int_str (Mutate m) (st, fs) = (apply_mutation m st, fs)"
| "step int_str (Load path) (st, fs) = (snd (load_data int_str st fs path), fs)"
| "step int_str (Save path) (st, fs) = (st, snd (save_data st fs path))"

fun run :: "(string \<Rightarrow> int option) \<Rightarrow> call list \<Rightarrow> stock \<times> disk \<Rightarrow> stock \<times> disk" where
  "run int_str [] s = s"
| "run int_str (c # cs) s = run int_str cs (step int_str c s)"

text \<open>
  A file is harmless to invariant I1 when every value of its object that \<open>int\<close>
  accepts becomes a strictly positive integer (a file that is no object, or is not
  there, is harmless too).
\<close>

definition positive_file :: "(string \<Rightarrow> int option) \<Rightarrow> pyfile \<Rightarrow> bool" where
  "positive_file int_str f =
     (case holds f of
        Some (Document (PDict kvs)) \<Rightarrow>
          list_all (\<lambda>(k, v). case py_int int_str v of Inl e \<Rightarrow> True | Inr n \<Rightarrow> 0 < n) kvs
      | _ \<Rightarrow> True)"

text \<open>
  An instance of \<open>int_str\<close> for the examples. It reads an optional sign followed by
  decimal digits, as \<open>int\<close> does, and refuses every other string (\<open>int\<close> itself also
  accepts blanks around the literal and single underscores between digits; no example
  uses them).
\<close>

fun digits_value :: "string \<Rightarrow> nat \<Rightarrow> nat option" where
  "digits_value [] acc = Some acc"
| "digits_value (c # cs) acc =
     (if CHR ''0'' \<le> c \<and> c \<le> CHR ''9''
      then digits_value cs (10 * acc + (of_char c - of_char CHR ''0''))
      else None)"

fun decimal_int :: "string \<Rightarrow> int option" where
  "decimal_int [] = None"
| "decimal_int (c # cs) =
     (if c = CHR ''-'' then (if cs = [] then None else map_option (\<lambda>n. - int n) (digits_value cs 0))
      else if c = CHR ''+'' then (if cs = [] then None else map_option int (digits_value cs 0))
      else map_option int (digits_value (c # cs) 0))"

text \<open>
  Disks for the examples: one path \<open>inventory.json\<close>; at every other path there is no
  file, and one can be written. An ordinary file can be read and written.
\<close>

definition absent :: pyfile where
  "absent = \<lparr>holds = None, readable = True, writing = Done\<rparr>"

definition ordinary :: "pyval \<Rightarrow> pyfile" where
  "ordinary v = \<lparr>holds = Some (Document v), readable = True, writing = Done\<rparr>"

definition one_file :: "pyfile \<Rightarrow> disk" where
  "one_file f = (\<lambda>p. if p = ''inventory.json'' then f else absent)"

definition zero_file :: pyfile where
  "zero_file = ordinary (PDict [(''apple'', PInt 0)])"

definition good_file :: pyfile where
  "good_file = ordinary (PDict [(''apple'', PInt 7), (''banana'', PStr ''3'')])"





definition locked_file :: pyfile where
  "locked_file = \<lparr>holds = Some (Document (PDict [])), readable = False, writing = Refused\<rparr>"

definition full_disk_file :: pyfile where
  "full_disk_file = \<lparr>holds = Some (Document (PDict [])), readable = True, writing = Broken\<rparr>"


text \<open>The invariant of a ledger with its disk: I1, and no file that could break it.\<close>

definition ledger_ok :: "(string \<Rightarrow> int option) \<Rightarrow> stock \<times> disk \<Rightarrow> bool" where
  "ledger_ok int_str s \<longleftrightarrow> positive_stock (fst s) \<and> (\<forall>p. positive_file int_str (snd s p))"

section \<open>Properties\<close>

subsection \<open>Integers as text, and the audit line\<close>

lemma fits_str_small: "\<bar>n\<bar> < 10000 \<Longrightarrow> fits_str n"
proof -
  assume "\<bar>n\<bar> < 10000"
  moreover have "(10 :: int) ^ 4 \<le> 10 ^ int_max_str_digits"
    by (rule power_increasing) (simp_all add: int_max_str_digits_def)
  ultimately show ?thesis by (simp add: fits_str_def)
qed







subsection \<open>The dictionary operations\<close>


lemma positive_stock_iff: "positive_stock st \<longleftrightarrow> (\<forall>(k, q) \<in> set st. 0 < q)"
  by (simp add: positive_stock_def list_all_iff)

lemma positive_stock_update:
  "positive_stock st \<Longrightarrow> 0 < v \<Longrightarrow> positive_stock (AList.update k v st)"
  by (induction st) (auto simp: positive_stock_def)

lemma positive_stock_delete: "positive_stock st \<Longrightarrow> positive_stock (AList.delete k st)"
  by (induction st) (auto simp: positive_stock_def)

lemma positive_stock_lookup: "positive_stock st \<Longrightarrow> map_of st k = Some q \<Longrightarrow> 0 < q"
  by (auto simp: positive_stock_iff dest: map_of_SomeD)

lemma dict_get_nonneg: "positive_stock st \<Longrightarrow> 0 \<le> dict_get st k 0"
  by (auto simp: dict_get_def dest: positive_stock_lookup split: option.splits)

text \<open>The dictionary after \<open>add_item\<close>, whatever the outcome, the \<open>logs\<close> and the time.\<close>

lemma add_item_stock:
  "fst (snd (add_item st item qty logs now)) =
     (case as_str item of
        None \<Rightarrow> st
      | Some name \<Rightarrow>
          (case as_int qty of
             None \<Rightarrow> st
           | Some q \<Rightarrow> if q \<le> 0 then st else AList.update name (dict_get st name 0 + q) st))"
  by (simp add: add_item_def Let_def split: option.splits sum.splits)

lemma positive_add_item:
  "positive_stock st \<Longrightarrow> positive_stock (fst (snd (add_item st item qty logs now)))"
  using dict_get_nonneg [of st]
  by (auto simp: add_item_stock intro!: positive_stock_update split: option.splits
      intro: add_nonneg_pos)

lemma positive_remove_item: "positive_stock st \<Longrightarrow> positive_stock (snd (remove_item st item qty))"
  by (auto simp: remove_item_def intro!: positive_stock_update positive_stock_delete
      split: option.splits)

lemma positive_apply_mutation: "positive_stock st \<Longrightarrow> positive_stock (apply_mutation m st)"
  by (cases m) (simp_all add: positive_add_item positive_remove_item)

lemma positive_run_mutations: "positive_stock st \<Longrightarrow> positive_stock (run_mutations ms st)"
  by (induction ms arbitrary: st) (simp_all add: positive_apply_mutation)

lemma get_qty_absent: "name \<notin> fst ` set st \<Longrightarrow> get_qty st (PStr name) = Inr 0"
proof -
  assume "name \<notin> fst ` set st"
  then have "map_of st name = None" by (simp add: map_of_eq_None_iff)
  then show ?thesis by (simp add: get_qty_def dict_get_def)
qed

lemma get_qty_zero_iff:
  assumes "positive_stock st"
  shows "get_qty st (PStr name) = Inr 0 \<longleftrightarrow> name \<notin> fst ` set st"
proof
  assume zero: "get_qty st (PStr name) = Inr 0"
  show "name \<notin> fst ` set st"
  proof (cases "map_of st name")
    case None
    then show ?thesis by (simp add: map_of_eq_None_iff)
  next
    case (Some q)
    with assms have "0 < q" by (rule positive_stock_lookup)
    with Some zero show ?thesis by (simp add: get_qty_def dict_get_def)
  qed
next
  assume "name \<notin> fst ` set st"
  then show "get_qty st (PStr name) = Inr 0" by (rule get_qty_absent)
qed

subsection \<open>The outcome of add\_item\<close>


text \<open>An audit line: five of \<open>x\<close> added with a list for \<open>logs\<close>.\<close>

lemma add_item_audit_line:
  "add_item [] (PStr ''x'') (PInt 5) (PList []) ''2026-01-01T09:00:00''
     = (Inr (), [(''x'', 5)], PList [PStr ''2026-01-01T09:00:00: Added 5 of x''])"
  by (simp add: add_item_def dict_get_def py_str_int_def fits_str_small show_int_def
      show_nat.simps)

subsection \<open>Sorting the items by key\<close>




subsection \<open>The comprehension of load\_data\<close>

lemma float_int_errors: "float_int f = Inl e \<Longrightarrow> e = ValueError \<or> e = OverflowError"
  by (cases f) auto

lemma py_int_errors:
  "py_int int_str v = Inl e \<Longrightarrow> e = TypeError \<or> e = ValueError \<or> e = OverflowError"
  by (cases v) (auto dest: float_int_errors split: option.splits)

lemma dict_comp_first_rejection:
  "dict_comp int_str kvs acc = Inl e \<longleftrightarrow> first_rejection int_str kvs = Some e"
  by (induction kvs arbitrary: acc) (auto split: sum.splits)

text \<open>
  \<open>first_rejection\<close> is what its name says: the exception of a value that \<open>int\<close> rejects,
  every value before it in the file being accepted.
\<close>

lemma first_rejection_Some_iff:
  "first_rejection int_str kvs = Some e \<longleftrightarrow>
     (\<exists>pre k v post. kvs = pre @ (k, v) # post \<and> py_int int_str v = Inl e
        \<and> (\<forall>(k', v') \<in> set pre. \<exists>n. py_int int_str v' = Inr n))"
proof (induction kvs)
  case Nil
  then show ?case by simp
next
  case (Cons kv kvs)
  obtain k0 v0 where kv: "kv = (k0, v0)" by (cases kv)
  show ?case
  proof (cases "py_int int_str v0")
    case (Inl e0)
    show ?thesis
    proof
      assume "first_rejection int_str (kv # kvs) = Some e"
      with kv Inl have "e0 = e" by simp
      with kv Inl have "kv # kvs = [] @ (k0, v0) # kvs \<and> py_int int_str v0 = Inl e
          \<and> (\<forall>(k', v') \<in> set []. \<exists>n. py_int int_str v' = Inr n)"
        by simp
      then show "\<exists>pre k v post. kv # kvs = pre @ (k, v) # post \<and> py_int int_str v = Inl e
          \<and> (\<forall>(k', v') \<in> set pre. \<exists>n. py_int int_str v' = Inr n)"
        by (intro exI)
    next
      assume "\<exists>pre k v post. kv # kvs = pre @ (k, v) # post \<and> py_int int_str v = Inl e
          \<and> (\<forall>(k', v') \<in> set pre. \<exists>n. py_int int_str v' = Inr n)"
      then obtain pre k v post where split: "kv # kvs = pre @ (k, v) # post"
        and v: "py_int int_str v = Inl e"
        and pre: "\<forall>(k', v') \<in> set pre. \<exists>n. py_int int_str v' = Inr n"
        by blast
      have "pre = []"
      proof (cases pre)
        case Nil
        then show ?thesis .
      next
        case (Cons p ps)
        with split kv have "p = (k0, v0)" by simp
        with pre Cons Inl show ?thesis by auto
      qed
      with split kv v Inl show "first_rejection int_str (kv # kvs) = Some e" by simp
    qed
  next
    case (Inr n0)
    have "(\<exists>pre k v post. kv # kvs = pre @ (k, v) # post \<and> py_int int_str v = Inl e
          \<and> (\<forall>(k', v') \<in> set pre. \<exists>n. py_int int_str v' = Inr n))
      \<longleftrightarrow> (\<exists>pre k v post. kvs = pre @ (k, v) # post \<and> py_int int_str v = Inl e
          \<and> (\<forall>(k', v') \<in> set pre. \<exists>n. py_int int_str v' = Inr n))"
    proof
      assume "\<exists>pre k v post. kv # kvs = pre @ (k, v) # post \<and> py_int int_str v = Inl e
          \<and> (\<forall>(k', v') \<in> set pre. \<exists>n. py_int int_str v' = Inr n)"
      then obtain pre k v post where split: "kv # kvs = pre @ (k, v) # post"
        and v: "py_int int_str v = Inl e"
        and pre: "\<forall>(k', v') \<in> set pre. \<exists>n. py_int int_str v' = Inr n"
        by blast
      from split kv Inr v obtain ps where ps: "pre = kv # ps"
        by (cases pre) auto
      with split have "kvs = ps @ (k, v) # post" by simp
      moreover from pre ps have "\<forall>(k', v') \<in> set ps. \<exists>n. py_int int_str v' = Inr n" by simp
      ultimately show "\<exists>pre k v post. kvs = pre @ (k, v) # post \<and> py_int int_str v = Inl e
          \<and> (\<forall>(k', v') \<in> set pre. \<exists>n. py_int int_str v' = Inr n)"
        using v by blast
    next
      assume "\<exists>pre k v post. kvs = pre @ (k, v) # post \<and> py_int int_str v = Inl e
          \<and> (\<forall>(k', v') \<in> set pre. \<exists>n. py_int int_str v' = Inr n)"
      then obtain pre k v post where split: "kvs = pre @ (k, v) # post"
        and v: "py_int int_str v = Inl e"
        and pre: "\<forall>(k', v') \<in> set pre. \<exists>n. py_int int_str v' = Inr n"
        by blast
      from split have "kv # kvs = (kv # pre) @ (k, v) # post" by simp
      moreover from pre kv Inr have
        "\<forall>(k', v') \<in> set (kv # pre). \<exists>n. py_int int_str v' = Inr n" by simp
      ultimately show "\<exists>pre k v post. kv # kvs = pre @ (k, v) # post \<and> py_int int_str v = Inl e
          \<and> (\<forall>(k', v') \<in> set pre. \<exists>n. py_int int_str v' = Inr n)"
        using v by blast
    qed
    with Cons.IH kv Inr show ?thesis by simp
  qed
qed


lemma positive_dict_comp:
  "list_all (\<lambda>(k, v). case py_int int_str v of Inl e \<Rightarrow> True | Inr n \<Rightarrow> 0 < n) kvs \<Longrightarrow>
   positive_stock acc \<Longrightarrow> dict_comp int_str kvs acc = Inr st \<Longrightarrow> positive_stock st"
proof (induction kvs arbitrary: acc)
  case Nil
  then show ?case by simp
next
  case (Cons kv kvs)
  obtain k v where kv: "kv = (k, v)" by (cases kv)
  from Cons.prems(3) kv obtain n where n: "py_int int_str v = Inr n"
    and rest: "dict_comp int_str kvs (AList.update k n acc) = Inr st"
    by (auto split: sum.splits)
  from Cons.prems(1) kv n have "0 < n" by simp
  with Cons.prems(2) have pos: "positive_stock (AList.update k n acc)"
    by (rule positive_stock_update)
  from Cons.prems(1) have
    "list_all (\<lambda>(k, v). case py_int int_str v of Inl e \<Rightarrow> True | Inr n \<Rightarrow> 0 < n) kvs"
    by simp
  then show ?case using pos rest by (rule Cons.IH)
qed

subsection \<open>load\_data and save\_data\<close>

lemma load_body_Inr:
  "load_body int_str f = Inr st' \<Longrightarrow>
   \<exists>kvs. holds f = Some (Document (PDict kvs)) \<and> dict_comp int_str kvs [] = Inr st'"
  by (auto simp: load_body_def split: if_splits option.splits filetext.splits pyval.splits)

lemma load_body_errors:
  "load_body int_str f = Inl e \<Longrightarrow>
   e \<in> {OSError, FileNotFoundError, JSONDecodeError, RecursionError, ValueError, TypeError,
        OverflowError}"
  by (auto simp: load_body_def dict_comp_first_rejection first_rejection_Some_iff
      dest!: py_int_errors split: if_splits option.splits filetext.splits pyval.splits)

lemma load_data_stock:
  "snd (load_data int_str st fs path) = st \<or> snd (load_data int_str st fs path) = []
   \<or> load_body int_str (fs path) = Inr (snd (load_data int_str st fs path))"
proof (cases "load_body int_str (fs path)")
  case (Inl e)
  then show ?thesis by (cases e) (simp_all add: load_data_def)
next
  case (Inr st')
  then show ?thesis by (simp add: load_data_def)
qed


lemma positive_load_data:
  assumes "positive_stock st" and "positive_file int_str (fs path)"
  shows "positive_stock (snd (load_data int_str st fs path))"
proof -
  consider "snd (load_data int_str st fs path) = st" | "snd (load_data int_str st fs path) = []"
    | "load_body int_str (fs path) = Inr (snd (load_data int_str st fs path))"
    using load_data_stock by blast
  then show ?thesis
  proof cases
    case 1
    with assms(1) show ?thesis by simp
  next
    case 2
    then show ?thesis by (simp add: positive_stock_def)
  next
    case 3
    then obtain kvs where f: "holds (fs path) = Some (Document (PDict kvs))"
      and c: "dict_comp int_str kvs [] = Inr (snd (load_data int_str st fs path))"
      using load_body_Inr by blast
    from assms(2) f have
      "list_all (\<lambda>(k, v). case py_int int_str v of Inl e \<Rightarrow> True | Inr n \<Rightarrow> 0 < n) kvs"
      by (simp add: positive_file_def)
    then show ?thesis
      using _ c by (rule positive_dict_comp) (simp add: positive_stock_def)
  qed
qed

lemma positive_file_dumped:
  "positive_stock st \<Longrightarrow> positive_file int_str (f\<lparr>holds := Some (Document (dumped st))\<rparr>)"
  by (auto simp: positive_file_def dumped_def positive_stock_def list_all_iff)

lemma positive_file_garbage: "positive_file int_str (f\<lparr>holds := Some Garbage\<rparr>)"
  by (simp add: positive_file_def)

lemma positive_save_data:
  "positive_stock st \<Longrightarrow> \<forall>p. positive_file int_str (fs p) \<Longrightarrow>
   positive_file int_str (snd (save_data st fs path) p)"
  by (auto simp: save_data_def positive_file_dumped positive_file_garbage split: writing.splits)

lemma ledger_ok_step: "ledger_ok int_str s \<Longrightarrow> ledger_ok int_str (step int_str c s)"
proof (cases s)
  case (Pair st fs)
  assume "ledger_ok int_str s"
  with Pair have st: "positive_stock st" and fs: "\<forall>p. positive_file int_str (fs p)"
    by (simp_all add: ledger_ok_def)
  show ?thesis
  proof (cases c)
    case (Mutate m)
    with Pair st fs show ?thesis by (simp add: ledger_ok_def positive_apply_mutation)
  next
    case (Load path)
    with Pair st fs show ?thesis by (simp add: ledger_ok_def positive_load_data)
  next
    case (Save path)
    with Pair st fs show ?thesis by (simp add: ledger_ok_def positive_save_data)
  qed
qed

lemma ledger_ok_run: "ledger_ok int_str s \<Longrightarrow> ledger_ok int_str (run int_str cs s)"
  by (induction cs arbitrary: s) (simp_all add: ledger_ok_step)

subsection \<open>Every key once\<close>

text \<open>
  The lists that stand for dictionaries hold every key once, whatever the calls and the
  files: \<open>wf_dict\<close> is no restriction on the states of the program.
\<close>

lemma wf_add_item: "wf_dict st \<Longrightarrow> wf_dict (fst (snd (add_item st item qty logs now)))"
  by (auto simp: wf_dict_def add_item_stock distinct_update split: option.splits)

lemma wf_remove_item: "wf_dict st \<Longrightarrow> wf_dict (snd (remove_item st item qty))"
  by (auto simp: wf_dict_def remove_item_def distinct_update distinct_delete split: option.splits)

lemma wf_dict_comp:
  "wf_dict acc \<Longrightarrow> dict_comp int_str kvs acc = Inr st \<Longrightarrow> wf_dict st"
proof (induction kvs arbitrary: acc)
  case Nil
  then show ?case by simp
next
  case (Cons kv kvs)
  obtain k v where kv: "kv = (k, v)" by (cases kv)
  from Cons.prems(2) kv obtain n
    where rest: "dict_comp int_str kvs (AList.update k n acc) = Inr st"
    by (auto split: sum.splits)
  from Cons.prems(1) have "wf_dict (AList.update k n acc)"
    by (simp add: wf_dict_def distinct_update)
  then show ?case using rest by (rule Cons.IH)
qed

lemma wf_load_data: "wf_dict st \<Longrightarrow> wf_dict (snd (load_data int_str st fs path))"
proof -
  assume st: "wf_dict st"
  consider "snd (load_data int_str st fs path) = st" | "snd (load_data int_str st fs path) = []"
    | "load_body int_str (fs path) = Inr (snd (load_data int_str st fs path))"
    using load_data_stock by blast
  then show ?thesis
  proof cases
    case 1
    with st show ?thesis by simp
  next
    case 2
    then show ?thesis by (simp add: wf_dict_def)
  next
    case 3
    then obtain kvs where "dict_comp int_str kvs [] = Inr (snd (load_data int_str st fs path))"
      using load_body_Inr by blast
    then show ?thesis using wf_dict_comp [of "[]"] by (simp add: wf_dict_def)
  qed
qed

lemma wf_step: "wf_dict (fst s) \<Longrightarrow> wf_dict (fst (step int_str c s))"
proof (cases s)
  case (Pair st fs)
  assume "wf_dict (fst s)"
  with Pair have st: "wf_dict st" by simp
  show ?thesis
  proof (cases c)
    case (Mutate m)
    with Pair st show ?thesis by (cases m) (simp_all add: wf_add_item wf_remove_item)
  next
    case (Load path)
    with Pair st show ?thesis by (simp add: wf_load_data)
  next
    case (Save path)
    with Pair st show ?thesis by simp
  qed
qed

lemma wf_run: "wf_dict (fst s) \<Longrightarrow> wf_dict (fst (run int_str cs s))"
  by (induction cs arbitrary: s) (simp_all add: wf_step)

subsection \<open>The items below a threshold\<close>




section \<open>The claims\<close>

subsection \<open>C1: the invariant I1 over add, remove, load and save\<close>

text \<open>
  C1 as the specification has it: in every state reachable by add, remove, load and
  save, every stored quantity is strictly positive. \<open>load_data\<close> stores \<open>int(v)\<close> for
  every value of the file as it comes, without a test of its sign: from the empty
  ledger, loading a file that holds \<open>{"apple": 0}\<close> leaves \<open>apple\<close> in the dictionary with
  quantity 0.
\<close>

theorem load_installs_zero_quantity:
  "fst (run decimal_int [Load ''inventory.json''] ([], one_file zero_file)) = [(''apple'', 0)]
   \<and> \<not> positive_stock (fst (run decimal_int [Load ''inventory.json''] ([], one_file zero_file)))"
  by (simp add: load_data_def load_body_def one_file_def zero_file_def ordinary_def
      positive_stock_def)

text \<open>
  C1, amended: from a ledger whose quantities are strictly positive, and a disk on which
  every file is harmless (each value of its object that \<open>int\<close> accepts becomes a strictly
  positive integer), every sequence of add, remove, load and save calls, raising or
  not, leads to a ledger whose quantities are strictly positive, and in which
  \<open>get_qty\<close> is 0 for exactly the items that are absent.
\<close>

theorem ledger_invariant:
  assumes "positive_stock st" and "\<forall>p. positive_file int_str (fs p)"
  shows "positive_stock (fst (run int_str cs (st, fs)))
     \<and> (\<forall>name. get_qty (fst (run int_str cs (st, fs))) (PStr name) = Inr 0
            \<longleftrightarrow> name \<notin> fst ` set (fst (run int_str cs (st, fs))))"
proof -
  from assms have "ledger_ok int_str (st, fs)" by (simp add: ledger_ok_def)
  then have "ledger_ok int_str (run int_str cs (st, fs))" by (rule ledger_ok_run)
  then have pos: "positive_stock (fst (run int_str cs (st, fs)))" by (simp add: ledger_ok_def)
  then show ?thesis by (simp add: get_qty_zero_iff)
qed

text \<open>
  An instance: the file holds \<open>{"apple": 7, "banana": "3"}\<close>; it is loaded, two pears
  are added, the seven apples are removed, and the ledger is saved and loaded again.
\<close>

theorem ledger_invariant_witness:
  "positive_stock []
   \<and> (\<forall>p. positive_file decimal_int (one_file good_file p))
   \<and> positive_stock (fst (run decimal_int
        [Load ''inventory.json'',
         Mutate (Add (PStr ''pear'') (PInt 2) PNone ''2026-01-01T09:00:00''),
         Mutate (Remove (PStr ''apple'') (PInt 7)), Save ''inventory.json'',
         Load ''inventory.json''] ([], one_file good_file)))"
proof -
  have h1: "positive_stock []" by (simp add: positive_stock_def)
  have h2: "\<forall>p. positive_file decimal_int (one_file good_file p)"
    by (simp add: one_file_def good_file_def ordinary_def absent_def positive_file_def)
  from ledger_invariant [OF h1 h2] h1 h2 show ?thesis by blast
qed

text \<open>The ledger at the end of that run.\<close>

lemma ledger_run_example:
  "fst (run decimal_int
        [Load ''inventory.json'',
         Mutate (Add (PStr ''pear'') (PInt 2) PNone ''2026-01-01T09:00:00''),
         Mutate (Remove (PStr ''apple'') (PInt 7)), Save ''inventory.json'',
         Load ''inventory.json''] ([], one_file good_file)) = [(''banana'', 3), (''pear'', 2)]"
  by (simp add: load_data_def load_body_def save_data_def add_item_stock remove_item_def
      dict_get_def one_file_def good_file_def ordinary_def dumped_def fits_str_small)

subsection \<open>C2: add and remove from the empty ledger\<close>

text \<open>
  C2: after any sequence of \<open>add_item\<close> and \<open>remove_item\<close> calls from the empty
  ledger (whatever a call raises, the sequence goes on from the ledger it left), every
  stored quantity is strictly positive and \<open>get_qty\<close> returns 0 for every item that is
  not in the dictionary. The statement is for every sequence, hence for every prefix
  of a sequence: it holds after each call.
\<close>

theorem add_remove_positive:
  "positive_stock (run_mutations ms [])
   \<and> (\<forall>name. name \<notin> fst ` set (run_mutations ms [])
          \<longrightarrow> get_qty (run_mutations ms []) (PStr name) = Inr 0)"
proof -
  have "positive_stock []" by (simp add: positive_stock_def)
  then have "positive_stock (run_mutations ms [])" by (rule positive_run_mutations)
  then show ?thesis by (simp add: get_qty_absent)
qed

text \<open>
  An instance: five of \<open>x\<close> in, two out, one of \<open>y\<close> in, four out (which deletes
  \<open>y\<close>), and a removal of the absent \<open>y\<close>, which raises.
\<close>

theorem add_remove_positive_witness:
  "run_mutations [Add (PStr ''x'') (PInt 5) PNone ''2026-01-01T09:00:00'',
      Remove (PStr ''x'') (PInt 2),
      Add (PStr ''y'') (PInt 1) (PList []) ''2026-01-01T09:00:01'',
      Remove (PStr ''y'') (PInt 4), Remove (PStr ''y'') (PInt 1)] []
     = [(''x'', 3)]
   \<and> positive_stock [(''x'', 3)]
   \<and> ''y'' \<notin> fst ` set [(''x'', 3 :: int)]
   \<and> get_qty [(''x'', 3)] (PStr ''y'') = Inr 0"
proof -
  have run: "run_mutations [Add (PStr ''x'') (PInt 5) PNone ''2026-01-01T09:00:00'',
      Remove (PStr ''x'') (PInt 2),
      Add (PStr ''y'') (PInt 1) (PList []) ''2026-01-01T09:00:01'',
      Remove (PStr ''y'') (PInt 4), Remove (PStr ''y'') (PInt 1)] []
     = [(''x'', 3)]"
    by (simp add: add_item_stock remove_item_def dict_get_def)
  have absent: "''y'' \<notin> fst ` set [(''x'', 3 :: int)]" by simp
  from add_remove_positive [of "[Add (PStr ''x'') (PInt 5) PNone ''2026-01-01T09:00:00'',
      Remove (PStr ''x'') (PInt 2),
      Add (PStr ''y'') (PInt 1) (PList []) ''2026-01-01T09:00:01'',
      Remove (PStr ''y'') (PInt 4), Remove (PStr ''y'') (PInt 1)]"]
  have "positive_stock [(''x'', 3)]
     \<and> (\<forall>name. name \<notin> fst ` set [(''x'', 3 :: int)] \<longrightarrow> get_qty [(''x'', 3)] (PStr name) = Inr 0)"
    unfolding run .
  with run absent show ?thesis by blast
qed

subsection \<open>C3: what load\_data recovers from\<close>




subsection \<open>C4: save, then load\<close>




subsection \<open>C5: remove\<close>

text \<open>
  C5: \<open>remove_item\<close> with a textual item and an integer quantity \<open>q > 0\<close>. If the item
  is absent the call raises \<open>KeyError\<close> and the dictionary is unchanged. Otherwise the
  call succeeds; with \<open>current\<close> the stored quantity, if \<open>q \<ge> current\<close> the key is
  deleted and every other item is as before (removing more than there is raises
  nothing), and if \<open>q < current\<close> the stored quantity becomes \<open>current - q\<close>, every
  other item as before.
\<close>

theorem remove_item_spec:
  assumes "as_str item = Some name" and "as_int qty = Some q" and "0 < q"
  shows "(map_of st name = None \<longrightarrow> remove_item st item qty = (Inl KeyError, st))
     \<and> (\<forall>current. map_of st name = Some current \<longrightarrow>
           fst (remove_item st item qty) = Inr ()
           \<and> (q \<ge> current \<longrightarrow>
                 name \<notin> fst ` set (snd (remove_item st item qty))
                 \<and> map_of (snd (remove_item st item qty)) = (map_of st)(name := None))
           \<and> (q < current \<longrightarrow>
                 map_of (snd (remove_item st item qty)) = (map_of st)(name \<mapsto> current - q)))"
  using assms
  by (auto simp: remove_item_def delete_conv' update_conv' delete_notin_dom)

text \<open>Instances, from \<open>{x: 5}\<close>: an absent item, 100 removed, 5 removed, 2 removed.\<close>

theorem remove_item_spec_witness:
  "remove_item [(''x'', 5)] (PStr ''ghost'') (PInt 1) = (Inl KeyError, [(''x'', 5)])
   \<and> snd (remove_item [(''x'', 5)] (PStr ''x'') (PInt 100)) = []
   \<and> snd (remove_item [(''x'', 5)] (PStr ''x'') (PInt 5)) = []
   \<and> map_of (snd (remove_item [(''x'', 5)] (PStr ''x'') (PInt 2))) ''x'' = Some 3"
proof -
  have s: "as_str (PStr ''ghost'') = Some ''ghost''" "as_str (PStr ''x'') = Some ''x''" by simp_all
  have q: "as_int (PInt 1) = Some 1" "as_int (PInt 2) = Some 2" by simp_all
  have absent: "map_of [(''x'', 5 :: int)] ''ghost'' = None" by simp
  have present: "map_of [(''x'', 5 :: int)] ''x'' = Some 5" by simp
  from remove_item_spec [OF s(1) q(1), of "[(''x'', 5)]"] absent
  have a: "remove_item [(''x'', 5)] (PStr ''ghost'') (PInt 1) = (Inl KeyError, [(''x'', 5)])"
    by simp
  from remove_item_spec [OF s(2) q(2), of "[(''x'', 5)]"] present
  have b: "map_of (snd (remove_item [(''x'', 5)] (PStr ''x'') (PInt 2))) ''x'' = Some 3"
    by simp
  have c: "snd (remove_item [(''x'', 5)] (PStr ''x'') (PInt 100)) = []"
    "snd (remove_item [(''x'', 5)] (PStr ''x'') (PInt 5)) = []"
    by (simp_all add: remove_item_def)
  from a b c show ?thesis by simp
qed

subsection \<open>C6: add accumulates\<close>

text \<open>
  C6: for \<open>a, b > 0\<close>, whatever the \<open>logs\<close> argument and the time, \<open>add_item(x, a)\<close>
  sets the stored quantity of \<open>x\<close> to the quantity before (0 if \<open>x\<close> was absent) plus
  \<open>a\<close>, every other item as before; it returns normally when \<open>a\<close> has at most 4300
  digits and \<open>logs\<close> is \<open>None\<close> or a list; and where \<open>x\<close> is absent at first,
  \<open>add_item(x, a)\<close> then \<open>add_item(x, b)\<close> give \<open>get_qty(x) = a + b\<close>.
\<close>

theorem add_item_accumulates:
  assumes "0 < a" and "0 < b"
  shows "map_of (fst (snd (add_item st (PStr x) (PInt a) logs now)))
       = (map_of st)(x \<mapsto> dict_get st x 0 + a)
     \<and> get_qty (fst (snd (add_item st (PStr x) (PInt a) logs now))) (PStr x)
         = Inr (dict_get st x 0 + a)
     \<and> (fits_str a \<and> (logs = PNone \<or> (\<exists>xs. logs = PList xs))
          \<longrightarrow> fst (add_item st (PStr x) (PInt a) logs now) = Inr ())
     \<and> (map_of st x = None \<longrightarrow>
          get_qty (fst (snd (add_item (fst (snd (add_item st (PStr x) (PInt a) logs now)))
               (PStr x) (PInt b) logs' now'))) (PStr x) = Inr (a + b))"
proof (intro conjI impI)
  from assms(1) show "map_of (fst (snd (add_item st (PStr x) (PInt a) logs now)))
       = (map_of st)(x \<mapsto> dict_get st x 0 + a)"
    by (simp add: add_item_stock update_conv')
  from assms(1) show "get_qty (fst (snd (add_item st (PStr x) (PInt a) logs now))) (PStr x)
         = Inr (dict_get st x 0 + a)"
    by (simp add: add_item_stock get_qty_def dict_get_def update_conv')
next
  assume "fits_str a \<and> (logs = PNone \<or> (\<exists>xs. logs = PList xs))"
  with assms(1) show "fst (add_item st (PStr x) (PInt a) logs now) = Inr ()"
    by (auto simp: add_item_def py_str_int_def Let_def)
next
  assume "map_of st x = None"
  with assms show "get_qty (fst (snd (add_item (fst (snd (add_item st (PStr x) (PInt a) logs now)))
               (PStr x) (PInt b) logs' now'))) (PStr x) = Inr (a + b)"
    by (simp add: add_item_stock get_qty_def dict_get_def update_conv')
qed

text \<open>An instance: two and then three of \<open>x\<close> into \<open>{y: 1}\<close>.\<close>

theorem add_item_accumulates_witness:
  "get_qty (fst (snd (add_item (fst (snd (add_item [(''y'', 1)] (PStr ''x'') (PInt 2) PNone
        ''2026-01-01T09:00:00''))) (PStr ''x'') (PInt 3) (PList []) ''2026-01-01T09:00:01'')))
     (PStr ''x'') = Inr 5
   \<and> fst (add_item [(''y'', 1)] (PStr ''x'') (PInt 2) PNone ''2026-01-01T09:00:00'') = Inr ()"
proof -
  have h: "(0 :: int) < 2" "(0 :: int) < 3" by simp_all
  have absent: "map_of [(''y'', 1 :: int)] ''x'' = None" by simp
  have ok: "fits_str 2 \<and> (PNone = PNone \<or> (\<exists>xs. PNone = PList xs))"
    by (simp add: fits_str_small)
  from add_item_accumulates [OF h, of "[(''y'', 1)]" "''x''" PNone "''2026-01-01T09:00:00''"
      "PList []" "''2026-01-01T09:00:01''"] absent ok
  show ?thesis by simp
qed

subsection \<open>C7: the items below a threshold\<close>




subsection \<open>C8: the exceptions of add and remove\<close>

text \<open>
  C8: \<open>add_item\<close> raises \<open>TypeError\<close> when the item is no string or the quantity is no
  integer (\<open>isinstance\<close> counts a \<open>bool\<close> as an integer), and \<open>ValueError\<close> when both
  have their types and the quantity is at most 0; \<open>remove_item\<close> with a string, a
  positive integer and an item that is absent raises \<open>KeyError\<close>. In particular
  \<open>add(42, 1)\<close> raises \<open>TypeError\<close>, \<open>add("x", 0)\<close> and \<open>add("x", -1)\<close> raise
  \<open>ValueError\<close>, and \<open>remove("ghost", 1)\<close> on the empty ledger raises \<open>KeyError\<close>.
  The dictionary and the \<open>logs\<close> are unchanged in each case, whatever the \<open>logs\<close>
  argument.
\<close>

theorem validation_errors:
  "(as_str item = None \<longrightarrow> add_item st item qty logs now = (Inl TypeError, st, logs))
   \<and> (as_int qty = None \<longrightarrow> add_item st item qty logs now = (Inl TypeError, st, logs))
   \<and> (as_str item \<noteq> None \<and> (\<exists>q. as_int qty = Some q \<and> q \<le> 0)
        \<longrightarrow> add_item st item qty logs now = (Inl ValueError, st, logs))
   \<and> (as_str item = Some name \<and> (\<exists>q. as_int qty = Some q \<and> 0 < q) \<and> map_of st name = None
        \<longrightarrow> remove_item st item qty = (Inl KeyError, st))
   \<and> add_item st (PInt 42) (PInt 1) logs now = (Inl TypeError, st, logs)
   \<and> add_item st (PStr ''x'') (PInt 0) logs now = (Inl ValueError, st, logs)
   \<and> add_item st (PStr ''x'') (PInt (- 1)) logs now = (Inl ValueError, st, logs)
   \<and> remove_item [] (PStr ''ghost'') (PInt 1) = (Inl KeyError, [])"
  by (auto simp: add_item_def remove_item_def split: option.splits)

text \<open>
  Instances on \<open>{apple: 3}\<close>: a float as item, a string as quantity, \<open>False\<close> (the
  integer 0) as quantity, and the removal of an absent item.
\<close>

theorem validation_errors_witness:
  "add_item [(''apple'', 3)] (PFloat (Finite 3 0)) (PInt 1) PNone ''2026-01-01T09:00:00''
     = (Inl TypeError, [(''apple'', 3)], PNone)
   \<and> add_item [(''apple'', 3)] (PStr ''apple'') (PStr ''2'') PNone ''2026-01-01T09:00:00''
     = (Inl TypeError, [(''apple'', 3)], PNone)
   \<and> add_item [(''apple'', 3)] (PStr ''apple'') (PBool False) PNone ''2026-01-01T09:00:00''
     = (Inl ValueError, [(''apple'', 3)], PNone)
   \<and> remove_item [(''apple'', 3)] (PStr ''orange'') (PInt 1) = (Inl KeyError, [(''apple'', 3)])"
proof -
  note v = validation_errors [where st = "[(''apple'', 3)]" and logs = PNone
      and now = "''2026-01-01T09:00:00''"]
  have a: "add_item [(''apple'', 3)] (PFloat (Finite 3 0)) (PInt 1) PNone ''2026-01-01T09:00:00''
     = (Inl TypeError, [(''apple'', 3)], PNone)"
    using v [where item = "PFloat (Finite 3 0)" and qty = "PInt 1" and name = "''''"] by simp
  have b: "add_item [(''apple'', 3)] (PStr ''apple'') (PStr ''2'') PNone ''2026-01-01T09:00:00''
     = (Inl TypeError, [(''apple'', 3)], PNone)"
    using v [where item = "PStr ''apple''" and qty = "PStr ''2''" and name = "''apple''"] by simp
  have c: "add_item [(''apple'', 3)] (PStr ''apple'') (PBool False) PNone ''2026-01-01T09:00:00''
     = (Inl ValueError, [(''apple'', 3)], PNone)"
    using v [where item = "PStr ''apple''" and qty = "PBool False" and name = "''apple''"] by simp
  have d: "remove_item [(''apple'', 3)] (PStr ''orange'') (PInt 1) = (Inl KeyError, [(''apple'', 3)])"
    using v [where item = "PStr ''orange''" and qty = "PInt 1" and name = "''orange''"] by simp
  from a b c d show ?thesis by simp
qed

subsection \<open>C9: save\<close>

text \<open>
  C9: where the write fails, \<open>save_data\<close> raises \<open>OSError\<close> to its caller: with the disk
  as it was where the file does not open for writing, and with the file emptied by
  \<open>open\<close> where it opens and the data cannot be written. \<open>save_data\<close> returns normally
  exactly when every write succeeds and \<open>json.dump\<close> can print every quantity, and then
  the file holds a JSON object whose keys are in sorted order and whose items are
  those of the dictionary, each quantity as a JSON integer: no failure is swallowed.
\<close>

theorem save_data_spec:
  "(writing (fs path) = Refused \<longrightarrow> save_data st fs path = (Inl OSError, fs))
   \<and> (writing (fs path) = Broken \<longrightarrow>
        fst (save_data st fs path) = Inl OSError
        \<and> holds (snd (save_data st fs path) path) = Some Garbage)
   \<and> (fst (save_data st fs path) = Inr () \<longleftrightarrow>
        writing (fs path) = Done \<and> list_all (\<lambda>(k, q). fits_str q) st)
   \<and> (fst (save_data st fs path) = Inr () \<longrightarrow>
        (\<exists>items. holds (snd (save_data st fs path) path) = Some (Document (PDict items))
           \<and> sorted (map fst items)
           \<and> length items = length st
           \<and> set items = (\<lambda>(k, q). (k, PInt q)) ` set st))"
proof (intro conjI impI)
  assume "writing (fs path) = Refused"
  then show "save_data st fs path = (Inl OSError, fs)" by (simp add: save_data_def)
next
  assume "writing (fs path) = Broken"
  then show "fst (save_data st fs path) = Inl OSError" by (simp add: save_data_def)
next
  assume "writing (fs path) = Broken"
  then show "holds (snd (save_data st fs path) path) = Some Garbage" by (simp add: save_data_def)
next
  show "fst (save_data st fs path) = Inr () \<longleftrightarrow>
        writing (fs path) = Done \<and> list_all (\<lambda>(k, q). fits_str q) st"
    by (cases "writing (fs path)") (simp_all add: save_data_def)
next
  let ?items = "map (\<lambda>(k, q). (k, PInt q)) (sort_key fst st)"
  assume ok: "fst (save_data st fs path) = Inr ()"
  then have "writing (fs path) = Done \<and> list_all (\<lambda>(k, q). fits_str q) st"
    by (cases "writing (fs path)") (simp_all add: save_data_def split: if_splits)
  then have "holds (snd (save_data st fs path) path) = Some (Document (PDict ?items))"
    by (simp add: save_data_def dumped_def)
  moreover have "map fst ?items = map fst (sort_key fst st)"
    by (simp add: case_prod_unfold comp_def)
  then have "sorted (map fst ?items)" by (simp only: sorted_sort_key)
  moreover have "length ?items = length st" by simp
  moreover have "set ?items = (\<lambda>(k, q). (k, PInt q)) ` set st" by simp
  ultimately show "\<exists>items. holds (snd (save_data st fs path) path) = Some (Document (PDict items))
           \<and> sorted (map fst items)
           \<and> length items = length st
           \<and> set items = (\<lambda>(k, q). (k, PInt q)) ` set st"
    by blast
qed

text \<open>
  Instances with \<open>{pear: 3, apple: 7}\<close>: a path that does not open for writing, a full
  disk, and a path where no file was.
\<close>

theorem save_data_spec_witness:
  "save_data [(''pear'', 3), (''apple'', 7)] (one_file locked_file) ''inventory.json''
     = (Inl OSError, one_file locked_file)
   \<and> fst (save_data [(''pear'', 3), (''apple'', 7)] (one_file full_disk_file) ''inventory.json'')
     = Inl OSError
   \<and> fst (save_data [(''pear'', 3), (''apple'', 7)] (one_file absent) ''inventory.json'') = Inr ()
   \<and> (\<exists>items. holds (snd (save_data [(''pear'', 3), (''apple'', 7)] (one_file absent)
          ''inventory.json'') ''inventory.json'') = Some (Document (PDict items))
        \<and> sorted (map fst items))"
proof -
  have h1: "writing (one_file locked_file ''inventory.json'') = Refused"
    by (simp add: one_file_def locked_file_def)
  have h2: "writing (one_file full_disk_file ''inventory.json'') = Broken"
    by (simp add: one_file_def full_disk_file_def)
  have h3: "writing (one_file absent ''inventory.json'') = Done
      \<and> list_all (\<lambda>(k, q). fits_str q) [(''pear'', 3), (''apple'', 7)]"
    by (simp add: one_file_def absent_def fits_str_small)
  from save_data_spec [of "one_file locked_file" "''inventory.json''"
      "[(''pear'', 3), (''apple'', 7)]"] h1
  have a: "save_data [(''pear'', 3), (''apple'', 7)] (one_file locked_file) ''inventory.json''
     = (Inl OSError, one_file locked_file)"
    by blast
  from save_data_spec [of "one_file full_disk_file" "''inventory.json''"
      "[(''pear'', 3), (''apple'', 7)]"] h2
  have b: "fst (save_data [(''pear'', 3), (''apple'', 7)] (one_file full_disk_file)
      ''inventory.json'') = Inl OSError"
    by blast
  from save_data_spec [of "one_file absent" "''inventory.json''"
      "[(''pear'', 3), (''apple'', 7)]"] h3
  have c: "fst (save_data [(''pear'', 3), (''apple'', 7)] (one_file absent) ''inventory.json'')
      = Inr ()"
    by blast
  with save_data_spec [of "one_file absent" "''inventory.json''"
      "[(''pear'', 3), (''apple'', 7)]"]
  have "\<exists>items. holds (snd (save_data [(''pear'', 3), (''apple'', 7)] (one_file absent)
          ''inventory.json'') ''inventory.json'') = Some (Document (PDict items))
        \<and> sorted (map fst items)"
    by blast
  with a b c show ?thesis by simp
qed

subsection \<open>C10: what a call that raises leaves behind\<close>




end
